theory Spec2Isabelle
  imports
    Complex_Main
    "HOL-Library.AList"
    "HOL-Library.Multiset"
    "HOL-Library.Char_ord"
    "HOL-Library.List_Lexorder"
begin

section \<open>Python values\<close>

text \<open>
  A Python float is a real number or NaN. The fields of a validated request are finite and
  are reals; a raw model score is any float, so it may be NaN. Arithmetic on finite floats is
  taken exactly (no binary rounding error), and the infinities are left out: \<open>np.clip\<close>
  sends them to the bounds like any other out-of-range value.
\<close>

datatype pyfloat = Fin real | NaN

text \<open>
  The values the services serialise with \<open>json.dumps\<close>: \<open>None\<close>, booleans, ints, floats,
  strings and dicts with string keys. A dict keeps its insertion order, so it is an
  association list; its keys are distinct. The text that \<open>json.dumps\<close> writes is represented
  by the value it denotes (members in the order written), and \<open>json.loads\<close> reads it back.
\<close>

datatype json =
    JNull
  | JBool bool
  | JInt int
  | JNum pyfloat
  | JStr string
  | JObj "(string \<times> json) list"

type_synonym pydict = "(string \<times> json) list"

datatype redis_error = ConnectionError | TimeoutError | ResponseError

datatype py_error = ValueError | IndexError | TypeError | RedisError redis_error | InferenceError

text \<open>Truth value of a Python object, as tested by \<open>if cached:\<close>.\<close>

fun truthy :: "json \<Rightarrow> bool" where
  "truthy JNull = False"
| "truthy (JBool b) = b"
| "truthy (JInt i) = (i \<noteq> 0)"
| "truthy (JNum (Fin x)) = (x \<noteq> 0)"
| "truthy (JNum NaN) = True"
| "truthy (JStr s) = (s \<noteq> [])"
| "truthy (JObj d) = (d \<noteq> [])"

text \<open>
  \<open>obj[k] = v\<close>: a dict replaces the value of an existing key in place and appends a new
  key at the end; any other value of the model does not support item assignment.
\<close>

fun setitem :: "json \<Rightarrow> string \<Rightarrow> json \<Rightarrow> py_error + json" where
  "setitem (JObj d) k v = Inr (JObj (AList.update k v d))"
| "setitem _ k v = Inl TypeError"

fun getitem :: "json \<Rightarrow> string \<Rightarrow> json option" where
  "getitem (JObj d) k = map_of d k"
| "getitem _ k = None"

text \<open>\<open>x < c\<close> on floats: every comparison with NaN is false.\<close>

fun flt :: "pyfloat \<Rightarrow> real \<Rightarrow> bool" where
  "flt (Fin x) c = (x < c)"
| "flt NaN c = False"

text \<open>\<open>np.clip(x, lo, hi)\<close> is \<open>minimum(maximum(x, lo), hi)\<close>, and NaN propagates.\<close>

fun np_clip :: "pyfloat \<Rightarrow> real \<Rightarrow> real \<Rightarrow> pyfloat" where
  "np_clip (Fin x) lo hi = Fin (min (max x lo) hi)"
| "np_clip NaN lo hi = NaN"

text \<open>
  \<open>round(x, n)\<close> rounds to \<open>n\<close> decimals, a tie going to the even neighbour;
  \<open>round(nan, n)\<close> is \<open>nan\<close>.
\<close>

definition round_half_even :: "real \<Rightarrow> int" where
  "round_half_even y =
     (let f = \<lfloor>y\<rfloor>; d = y - of_int f
      in if d < 1 / 2 then f else if 1 / 2 < d then f + 1 else if even f then f else f + 1)"

definition round_real :: "real \<Rightarrow> nat \<Rightarrow> real" where
  "round_real x n = of_int (round_half_even (x * 10 ^ n)) / 10 ^ n"

fun py_round :: "pyfloat \<Rightarrow> nat \<Rightarrow> pyfloat" where
  "py_round (Fin x) n = Fin (round_real x n)"
| "py_round NaN n = NaN"

section \<open>Wall-clock time\<close>

record datetime =
  year :: nat
  month :: nat
  day :: nat
  hour :: nat
  minute :: nat
  second :: nat
  microsecond :: nat

definition is_leap :: "nat \<Rightarrow> bool" where
  "is_leap y = (y mod 4 = 0 \<and> (y mod 100 \<noteq> 0 \<or> y mod 400 = 0))"

definition days_in_month :: "nat \<Rightarrow> nat \<Rightarrow> nat" where
  "days_in_month y m =
     (if m = 2 then (if is_leap y then 29 else 28)
      else if m = 4 \<or> m = 6 \<or> m = 9 \<or> m = 11 then 30 else 31)"

definition days_before_month :: "nat \<Rightarrow> nat \<Rightarrow> nat" where
  "days_before_month y m = sum_list (map (days_in_month y) [1..<m])"

text \<open>\<open>d.timetuple().tm_yday\<close>: the day of the year, 1 for January 1st.\<close>

definition tm_yday :: "datetime \<Rightarrow> nat" where
  "tm_yday d = days_before_month (year d) (month d) + day d"

definition zpad :: "nat \<Rightarrow> nat \<Rightarrow> string" where
  "zpad w n = map (\<lambda>i. ''0123456789'' ! ((n div 10 ^ (w - 1 - i)) mod 10)) [0..<w]"

text \<open>\<open>d.isoformat()\<close>: \<open>YYYY-MM-DDTHH:MM:SS\<close>, followed by \<open>.ffffff\<close> when the microsecond is not 0.\<close>

definition isoformat :: "datetime \<Rightarrow> string" where
  "isoformat d =
     zpad 4 (year d) @ ''-'' @ zpad 2 (month d) @ ''-'' @ zpad 2 (day d) @ ''T'' @
     zpad 2 (hour d) @ '':'' @ zpad 2 (minute d) @ '':'' @ zpad 2 (second d) @
     (if microsecond d = 0 then [] else ''.'' @ zpad 6 (microsecond d))"

section \<open>Requests (app/models/schemas.py)\<close>

text \<open>
  \<open>PredictionRequest\<close>. The routes hand the services \<open>validated.dict()\<close>, which holds every
  field of the class; the two optional fields hold \<open>None\<close> when the client sent \<open>null\<close>.
\<close>

record prediction_request =
  latitude :: real
  longitude :: real
  temperature :: real
  humidity :: real
  wind_speed :: real
  wind_direction :: "real option"
  pressure :: "real option"



definition opt_num :: "real option \<Rightarrow> json" where
  "opt_num v = (case v of None \<Rightarrow> JNull | Some x \<Rightarrow> JNum (Fin x))"

text \<open>\<open>validated.dict()\<close>: the fields in the order the class declares them.\<close>

definition dict_of :: "prediction_request \<Rightarrow> pydict" where
  "dict_of rq =
     [(''latitude'', JNum (Fin (latitude rq))),
      (''longitude'', JNum (Fin (longitude rq))),
      (''temperature'', JNum (Fin (temperature rq))),
      (''humidity'', JNum (Fin (humidity rq))),
      (''wind_speed'', JNum (Fin (wind_speed rq))),
      (''wind_direction'', opt_num (wind_direction rq)),
      (''pressure'', opt_num (pressure rq))]"

section \<open>The cache backend\<close>

text \<open>
  The Redis server as the cache service uses it: each key holds a document and the instant
  (in seconds of the server's clock) at which it expires; the server counts the lookups that
  found a key and those that did not. When \<open>fault\<close> holds an error the server is out of
  reach and every command raises that error. \<open>SETEX\<close> rejects an expiry that is not
  positive.
\<close>

record redis =
  db :: "(string \<times> json \<times> nat) list"
  r_now :: nat
  keyspace_hits :: nat
  keyspace_misses :: nat
  fault :: "redis_error option"

definition live :: "redis \<Rightarrow> string \<Rightarrow> json option" where
  "live r k =
     (case map_of (db r) k of
        None \<Rightarrow> None
      | Some (v, e) \<Rightarrow> if r_now r < e then Some v else None)"

definition redis_get :: "redis \<Rightarrow> string \<Rightarrow> (redis_error + json option) \<times> redis" where
  "redis_get r k =
     (case fault r of
        Some e \<Rightarrow> (Inl e, r)
      | None \<Rightarrow>
          (case live r k of
             Some v \<Rightarrow> (Inr (Some v), r\<lparr>keyspace_hits := keyspace_hits r + 1\<rparr>)
           | None \<Rightarrow> (Inr None, r\<lparr>keyspace_misses := keyspace_misses r + 1\<rparr>)))"

definition redis_setex :: "redis \<Rightarrow> string \<Rightarrow> int \<Rightarrow> json \<Rightarrow> (redis_error + unit) \<times> redis" where
  "redis_setex r k ttl v =
     (case fault r of
        Some e \<Rightarrow> (Inl e, r)
      | None \<Rightarrow>
          if ttl \<le> 0 then (Inl ResponseError, r)
          else (Inr (), r\<lparr>db := AList.update k (v, r_now r + nat ttl) (db r)\<rparr>))"

definition redis_info_stats :: "redis \<Rightarrow> redis_error + (nat \<times> nat)" where
  "redis_info_stats r =
     (case fault r of Some e \<Rightarrow> Inl e | None \<Rightarrow> Inr (keyspace_hits r, keyspace_misses r))"

definition redis_dbsize :: "redis \<Rightarrow> redis_error + nat" where
  "redis_dbsize r =
     (case fault r of
        Some e \<Rightarrow> Inl e
      | None \<Rightarrow> Inr (length (filter (\<lambda>(k, v, e). r_now r < e) (db r))))"


section \<open>The serving process\<close>

text \<open>
  A pandas frame is its list of rows, each row a dict from column name to value.
  \<open>pd.DataFrame(rows)\<close> of a list of dicts is the frame of these rows. Given a non-empty
  list of frames pandas stacks them into a three-dimensional array and refuses it with
  \<open>ValueError: Must pass 2-d input\<close>.
\<close>

datatype frame = DataFrame "pydict list"

definition DataFrame_of_frames :: "frame list \<Rightarrow> py_error + frame" where
  "DataFrame_of_frames fs = (if fs = [] then Inr (DataFrame []) else Inl ValueError)"

text \<open>
  What the process is given and never changes: \<open>hashlib.md5(text).hexdigest()\<close> as a function
  of the document whose text is hashed, the configuration, and the loaded model, whose
  \<open>predict\<close> returns one raw score for each row of a frame, or raises.
\<close>

record env =
  md5_hexdigest :: "json \<Rightarrow> string"
  CACHE_TTL :: int
  MODEL_VERSION :: string
  model_predict :: "frame \<Rightarrow> py_error + pyfloat list"

text \<open>
  What changes while the process runs: the Redis server behind \<open>cache_service.redis_client\<close>
  (\<open>None\<close> when the connection failed at start-up), the wall clock, of which each
  \<open>datetime.now()\<close> takes the next reading, and the log of the frames passed to the model.
\<close>

record world =
  redis_client :: "redis option"
  clock :: "nat \<Rightarrow> datetime"
  ticks :: nat
  model_calls :: "frame list"

definition datetime_now :: "world \<Rightarrow> datetime \<times> world" where
  "datetime_now w = (clock w (ticks w), w\<lparr>ticks := Suc (ticks w)\<rparr>)"

definition call_model :: "env \<Rightarrow> frame \<Rightarrow> world \<Rightarrow> (py_error + pyfloat list) \<times> world" where
  "call_model E fr w = (model_predict E fr, w\<lparr>model_calls := model_calls w @ [fr]\<rparr>)"

section \<open>Cache service (app/services/cache\_service.py)\<close>

text \<open>\<open>json.dumps(data, sort_keys=True)\<close>: the members of every dict in the order of their keys.\<close>

fun dumps_sorted :: "json \<Rightarrow> json" where
  "dumps_sorted (JObj kvs) = JObj (sort_key fst (map (\<lambda>(k, v). (k, dumps_sorted v)) kvs))"
| "dumps_sorted v = v"

definition generate_key :: "env \<Rightarrow> pydict \<Rightarrow> string" where
  "generate_key E data = ''prediction:'' @ md5_hexdigest E (dumps_sorted (JObj data))"

text \<open>The body of the \<open>try\<close> block of \<open>get\<close>.\<close>

definition get_try :: "env \<Rightarrow> redis \<Rightarrow> pydict \<Rightarrow> (py_error + json option) \<times> redis" where
  "get_try E r request_data =
     (let key = generate_key E request_data
      in case redis_get r key of
           (Inl e, r') \<Rightarrow> (Inl (RedisError e), r')
         | (Inr None, r') \<Rightarrow> (Inr None, r')
         | (Inr (Some cached), r') \<Rightarrow> (Inr (Some cached), r'))"

definition cache_get :: "env \<Rightarrow> pydict \<Rightarrow> world \<Rightarrow> json option \<times> world" where
  "cache_get E request_data w =
     (case redis_client w of
        None \<Rightarrow> (None, w)
      | Some r \<Rightarrow>
          (case get_try E r request_data of
             (Inl e, r') \<Rightarrow> (None, w\<lparr>redis_client := Some r'\<rparr>)
           | (Inr res, r') \<Rightarrow> (res, w\<lparr>redis_client := Some r'\<rparr>)))"

text \<open>The body of the \<open>try\<close> block of \<open>set\<close>; \<open>ttl or config.CACHE_TTL\<close> takes the default for \<open>None\<close> and for 0.\<close>

definition set_try :: "env \<Rightarrow> redis \<Rightarrow> pydict \<Rightarrow> json \<Rightarrow> int option \<Rightarrow> (py_error + unit) \<times> redis" where
  "set_try E r request_data prediction ttl =
     (let key = generate_key E request_data;
          ttl' = (case ttl of None \<Rightarrow> CACHE_TTL E | Some t \<Rightarrow> if t = 0 then CACHE_TTL E else t)
      in case redis_setex r key ttl' prediction of
           (Inl e, r') \<Rightarrow> (Inl (RedisError e), r')
         | (Inr u, r') \<Rightarrow> (Inr (), r'))"

definition cache_set :: "env \<Rightarrow> pydict \<Rightarrow> json \<Rightarrow> int option \<Rightarrow> world \<Rightarrow> world" where
  "cache_set E request_data prediction ttl w =
     (case redis_client w of
        None \<Rightarrow> w
      | Some r \<Rightarrow>
          (case set_try E r request_data prediction ttl of
             (Inl e, r') \<Rightarrow> w\<lparr>redis_client := Some r'\<rparr>
           | (Inr u, r') \<Rightarrow> w\<lparr>redis_client := Some r'\<rparr>))"

definition calculate_hit_rate :: "nat \<Rightarrow> nat \<Rightarrow> real" where
  "calculate_hit_rate hits misses =
     (let total = hits + misses
      in if total = 0 then 0 else (real hits / real total) * 100)"

text \<open>The body of the \<open>try\<close> block of \<open>get_stats\<close>.\<close>

definition stats_try :: "redis \<Rightarrow> py_error + pydict" where
  "stats_try r =
     (case redis_info_stats r of
        Inl e \<Rightarrow> Inl (RedisError e)
      | Inr (hits, misses) \<Rightarrow>
          (case redis_dbsize r of
             Inl e \<Rightarrow> Inl (RedisError e)
           | Inr n \<Rightarrow>
               Inr [(''connected'', JBool True),
                    (''total_keys'', JInt (int n)),
                    (''hits'', JInt (int hits)),
                    (''misses'', JInt (int misses)),
                    (''hit_rate'', JNum (Fin (calculate_hit_rate hits misses)))]))"

definition get_stats :: "world \<Rightarrow> pydict" where
  "get_stats w =
     (case redis_client w of
        None \<Rightarrow> [(''connected'', JBool False)]
      | Some r \<Rightarrow>
          (case stats_try r of
             Inl e \<Rightarrow> [(''connected'', JBool False)]
           | Inr stats \<Rightarrow> stats))"

section \<open>Prediction service (app/services/prediction\_service.py)\<close>

definition get_risk_level :: "pyfloat \<Rightarrow> string" where
  "get_risk_level risk_score =
     (if flt risk_score 0.3 then ''LOW''
      else if flt risk_score 0.6 then ''MODERATE''
      else if flt risk_score 0.8 then ''HIGH''
      else ''EXTREME'')"

text \<open>
  \<open>max(0, x)\<close> and \<open>min(1, x)\<close> of an int and a float return their first argument, the
  int, unless the float is strictly beyond it; \<open>round(v, n)\<close> leaves an int as it is.
\<close>

definition py_max :: "int \<Rightarrow> real \<Rightarrow> json" where
  "py_max a x = (if of_int a < x then JNum (Fin x) else JInt a)"

definition py_min :: "int \<Rightarrow> real \<Rightarrow> json" where
  "py_min a x = (if x < of_int a then JNum (Fin x) else JInt a)"

fun round_num :: "json \<Rightarrow> nat \<Rightarrow> json" where
  "round_num (JNum x) n = JNum (py_round x n)"
| "round_num v n = v"

definition calculate_factors :: "prediction_request \<Rightarrow> pydict" where
  "calculate_factors rq =
     (let temp = temperature rq; humidity' = humidity rq; wind = wind_speed rq
      in [(''temperature_factor'', round_num (py_max 0 ((temp - 70) / 40)) 3),
          (''humidity_factor'', round_num (py_max 0 ((50 - humidity') / 50)) 3),
          (''wind_factor'', round_num (py_min 1 (wind / 20)) 3)])"

text \<open>
  \<open>_prepare_features\<close>: the request's dict always holds the keys \<open>wind_direction\<close> and
  \<open>pressure\<close>, so \<open>.get\<close> returns their values and never its default.
\<close>

definition prepare_features :: "prediction_request \<Rightarrow> world \<Rightarrow> frame \<times> world" where
  "prepare_features rq w =
     (let (now, w') = datetime_now w;
          features =
            [(''temperature'', JNum (Fin (temperature rq))),
             (''humidity'', JNum (Fin (humidity rq))),
             (''wind_speed'', JNum (Fin (wind_speed rq))),
             (''wind_direction'', opt_num (wind_direction rq)),
             (''pressure'', opt_num (pressure rq)),
             (''month'', JInt (int (month now))),
             (''hour'', JInt (int (hour now))),
             (''day_of_year'', JInt (int (tm_yday now)))]
      in (DataFrame [features], w'))"

text \<open>The response dict that both \<open>predict_single\<close> and \<open>predict_batch\<close> build from a clamped score.\<close>

definition build_prediction :: "env \<Rightarrow> prediction_request \<Rightarrow> pyfloat \<Rightarrow> datetime \<Rightarrow> json" where
  "build_prediction E rq risk_score stamp =
     JObj [(''latitude'', JNum (Fin (latitude rq))),
           (''longitude'', JNum (Fin (longitude rq))),
           (''risk_score'', JNum (py_round risk_score 3)),
           (''risk_level'', JStr (get_risk_level risk_score)),
           (''timestamp'', JStr (isoformat stamp)),
           (''model_version'', JStr (MODEL_VERSION E)),
           (''contributing_factors'', JObj (calculate_factors rq)),
           (''from_cache'', JBool False)]"

text \<open>\<open>predict_single\<close> after the cache lookup has missed (lines 68 to 96).\<close>

definition predict_uncached :: "env \<Rightarrow> prediction_request \<Rightarrow> world \<Rightarrow> (py_error + json) \<times> world" where
  "predict_uncached E rq w =
     (let (features, w1) = prepare_features rq w;
          (res, w2) = call_model E features w1
      in case res of
           Inl e \<Rightarrow> (Inl e, w2)
         | Inr [] \<Rightarrow> (Inl IndexError, w2)
         | Inr (raw # rest) \<Rightarrow>
             (let risk_score = np_clip raw 0 1;
                  (stamp, w3) = datetime_now w2;
                  prediction = build_prediction E rq risk_score stamp
              in (Inr prediction, cache_set E (dict_of rq) prediction None w3)))"

definition predict_single :: "env \<Rightarrow> prediction_request \<Rightarrow> world \<Rightarrow> (py_error + json) \<times> world" where
  "predict_single E rq w =
     (let (cached, w1) = cache_get E (dict_of rq) w
      in case cached of
           None \<Rightarrow> predict_uncached E rq w1
         | Some c \<Rightarrow>
             if truthy c then (setitem c ''from_cache'' (JBool True), w1)
             else predict_uncached E rq w1)"

text \<open>
  The first loop of \<open>predict_batch\<close>: a hit goes to its place in \<open>predictions\<close>, a miss leaves
  the placeholder \<open>None\<close> there and is collected together with its index.
\<close>

fun scan_cache ::
  "env \<Rightarrow> nat \<Rightarrow> prediction_request list \<Rightarrow> json list \<Rightarrow> prediction_request list \<Rightarrow> nat list \<Rightarrow>
   world \<Rightarrow> (py_error + json list \<times> prediction_request list \<times> nat list) \<times> world" where
  "scan_cache E i [] predictions uncached_requests uncached_indices w =
     (Inr (predictions, uncached_requests, uncached_indices), w)"
| "scan_cache E i (rq # rqs) predictions uncached_requests uncached_indices w =
     (let (cached, w1) = cache_get E (dict_of rq) w
      in if (case cached of None \<Rightarrow> False | Some c \<Rightarrow> truthy c) then
           (case setitem (the cached) ''from_cache'' (JBool True) of
              Inl e \<Rightarrow> (Inl e, w1)
            | Inr c' \<Rightarrow>
                scan_cache E (Suc i) rqs (predictions @ [c']) uncached_requests uncached_indices w1)
         else
           scan_cache E (Suc i) rqs (predictions @ [JNull]) (uncached_requests @ [rq])
             (uncached_indices @ [i]) w1)"

text \<open>The list comprehension \<open>[self._prepare_features(req) for req in uncached_requests]\<close>.\<close>

fun prepare_all :: "prediction_request list \<Rightarrow> world \<Rightarrow> frame list \<times> world" where
  "prepare_all [] w = ([], w)"
| "prepare_all (rq # rqs) w =
     (let (f, w1) = prepare_features rq w; (fs, w2) = prepare_all rqs w1 in (f # fs, w2))"

text \<open>The loop over \<open>enumerate(zip(uncached_requests, risk_scores))\<close>.\<close>

fun fill ::
  "env \<Rightarrow> nat \<Rightarrow> (prediction_request \<times> pyfloat) list \<Rightarrow> nat list \<Rightarrow> json list \<Rightarrow> world \<Rightarrow>
   (py_error + json list) \<times> world" where
  "fill E i [] uncached_indices predictions w = (Inr predictions, w)"
| "fill E i ((rq, raw) # rest) uncached_indices predictions w =
     (let score = np_clip raw 0 1;
          (stamp, w1) = datetime_now w;
          prediction = build_prediction E rq score stamp;
          w2 = cache_set E (dict_of rq) prediction None w1
      in if i < length uncached_indices \<and> uncached_indices ! i < length predictions then
           fill E (Suc i) rest uncached_indices
             (predictions[uncached_indices ! i := prediction]) w2
         else (Inl IndexError, w2))"

definition predict_batch ::
  "env \<Rightarrow> prediction_request list \<Rightarrow> world \<Rightarrow> (py_error + json list) \<times> world" where
  "predict_batch E requests w =
     (case scan_cache E 0 requests [] [] [] w of
        (Inl e, w1) \<Rightarrow> (Inl e, w1)
      | (Inr (predictions, uncached_requests, uncached_indices), w1) \<Rightarrow>
          if uncached_requests \<noteq> [] then
            (let (frames, w2) = prepare_all uncached_requests w1
             in case DataFrame_of_frames frames of
                  Inl e \<Rightarrow> (Inl e, w2)
                | Inr features_batch \<Rightarrow>
                    (let (res, w3) = call_model E features_batch w2
                     in case res of
                          Inl e \<Rightarrow> (Inl e, w3)
                        | Inr risk_scores \<Rightarrow>
                            fill E 0 (zip uncached_requests risk_scores) uncached_indices
                              predictions w3))
          else (Inr predictions, w1))"

section \<open>Offline transform (transformers/feature\_engineering.py)\<close>

text \<open>The weather observation that \<open>WeatherExtractor.get_current_weather\<close> returns.\<close>

record weather_data =
  wd_latitude :: real
  wd_longitude :: real
  wd_timestamp :: datetime
  wd_temperature :: real
  wd_humidity :: real
  wd_wind_speed :: real
  wd_wind_direction :: real
  wd_conditions :: "string option"
  wd_pressure :: real

definition TEMP_HIGH :: real where "TEMP_HIGH = 85"
definition HUMIDITY_LOW :: real where "HUMIDITY_LOW = 30"
definition WIND_HIGH :: real where "WIND_HIGH = 15"

definition normalize_risk :: "real \<Rightarrow> real \<Rightarrow> bool \<Rightarrow> real" where
  "normalize_risk v threshold higher_is_riskier =
     (let normalized =
            (if higher_is_riskier then (v - threshold) / threshold
             else (threshold - v) / threshold);
          risk = 1 / (1 + exp (- 5 * normalized))
      in min (max risk 0) 1)"

definition condition_map :: "(string \<times> real) list" where
  "condition_map =
     [(''Clear'', 0.8), (''Clouds'', 0.5), (''Rain'', 0.1), (''Drizzle'', 0.2),
      (''Thunderstorm'', 0.3), (''Snow'', 0.0)]"

definition create_features :: "weather_data \<Rightarrow> pydict" where
  "create_features wd =
     (let temp = wd_temperature wd;
          temp_risk = normalize_risk temp TEMP_HIGH True;
          humidity' = wd_humidity wd;
          humidity_risk = normalize_risk humidity' HUMIDITY_LOW False;
          wind_speed' = wd_wind_speed wd;
          wind_risk = normalize_risk wind_speed' WIND_HIGH True;
          composite_risk = 0.4 * temp_risk + 0.3 * humidity_risk + 0.3 * wind_risk;
          timestamp = wd_timestamp wd;
          condition_risk =
            (case map_of condition_map (case wd_conditions wd of None \<Rightarrow> ''Clear'' | Some c \<Rightarrow> c) of
               None \<Rightarrow> 0.5
             | Some x \<Rightarrow> x)
      in [(''temperature'', JNum (Fin temp)),
          (''temp_risk'', JNum (Fin temp_risk)),
          (''humidity'', JNum (Fin humidity')),
          (''humidity_risk'', JNum (Fin humidity_risk)),
          (''wind_speed'', JNum (Fin wind_speed')),
          (''wind_risk'', JNum (Fin wind_risk)),
          (''composite_risk'', JNum (Fin composite_risk)),
          (''month'', JInt (int (month timestamp))),
          (''hour'', JInt (int (hour timestamp))),
          (''day_of_year'', JInt (int (tm_yday timestamp))),
          (''is_fire_season'', JInt (if 6 \<le> month timestamp \<and> month timestamp \<le> 10 then 1 else 0)),
          (''temp_humidity_interaction'', JNum (Fin (temp_risk * humidity_risk))),
          (''wind_temp_interaction'', JNum (Fin (wind_risk * temp_risk))),
          (''condition_risk'', JNum (Fin condition_risk))])"

definition create_risk_label :: "pyfloat \<Rightarrow> string" where
  "create_risk_label risk_score =
     (if flt risk_score 0.3 then ''LOW''
      else if flt risk_score 0.6 then ''MODERATE''
      else if flt risk_score 0.8 then ''HIGH''
      else ''EXTREME'')"

section \<open>Notions of the statements\<close>

text \<open>The backend is unavailable: no connection, or a server that raises on every command.\<close>

definition unavailable :: "world \<Rightarrow> bool" where
  "unavailable w = (case redis_client w of None \<Rightarrow> True | Some r \<Rightarrow> fault r \<noteq> None)"

text \<open>
  The lookup of a request misses: \<open>cache_service.get\<close> returns \<open>None\<close>, or a value
  that \<open>if cached:\<close> takes for false.
\<close>

definition cache_miss :: "env \<Rightarrow> prediction_request \<Rightarrow> world \<Rightarrow> bool" where
  "cache_miss E rq w =
     (case fst (cache_get E (dict_of rq) w) of None \<Rightarrow> True | Some c \<Rightarrow> \<not> truthy c)"



text \<open>The three fields of a result that its score determines.\<close>

definition risk_fields :: "json \<Rightarrow> json option \<times> json option \<times> json option" where
  "risk_fields p =
     (getitem p ''risk_score'', getitem p ''risk_level'', getitem p ''contributing_factors'')"

definition score_in_unit_interval :: "json \<Rightarrow> bool" where
  "score_in_unit_interval p =
     (case getitem p ''risk_score'' of
        Some (JNum (Fin x)) \<Rightarrow> 0 \<le> x \<and> x \<le> 1
      | _ \<Rightarrow> False)"

section \<open>Test doubles\<close>

text \<open>The request of the example in \<open>PredictionRequest.Config\<close>, and the same weather at another place.\<close>

definition example_request :: prediction_request where
  "example_request =
     \<lparr>latitude = 34.05, longitude = - 118.25, temperature = 95, humidity = 25,
      wind_speed = 20, wind_direction = Some 180, pressure = Some 1010\<rparr>"

definition elsewhere_request :: prediction_request where
  "elsewhere_request = example_request\<lparr>latitude := 40.7, longitude := - 74\<rparr>"

text \<open>A model that scores every row of its frame with the same raw score.\<close>

definition stub_model :: "pyfloat \<Rightarrow> frame \<Rightarrow> py_error + pyfloat list" where
  "stub_model raw fr = (case fr of DataFrame rows \<Rightarrow> Inr (map (\<lambda>row. raw) rows))"

text \<open>A digest that tells documents apart by their humidity and latitude only.\<close>

definition stub_digest :: "json \<Rightarrow> string" where
  "stub_digest doc =
     (case (getitem doc ''humidity'', getitem doc ''latitude'') of
        (Some (JNum (Fin h)), Some (JNum (Fin l))) \<Rightarrow> zpad 3 (nat \<lfloor>h\<rfloor>) @ zpad 3 (nat \<lfloor>l\<rfloor>)
      | _ \<Rightarrow> ''none'')"

definition stub_env :: "pyfloat \<Rightarrow> env" where
  "stub_env raw =
     \<lparr>md5_hexdigest = stub_digest, CACHE_TTL = 3600, MODEL_VERSION = ''v1.0'',
      model_predict = stub_model raw\<rparr>"

definition stub_clock :: "nat \<Rightarrow> datetime" where
  "stub_clock n =
     \<lparr>year = 2025, month = 1, day = 22, hour = 10, minute = 30, second = n, microsecond = 0\<rparr>"

text \<open>
  A process whose connection to Redis failed at start-up, one with an empty server, and one
  whose server raises the error \<open>e\<close> on every command.
\<close>

definition no_cache_world :: world where
  "no_cache_world = \<lparr>redis_client = None, clock = stub_clock, ticks = 0, model_calls = []\<rparr>"

definition empty_redis :: redis where
  "empty_redis = \<lparr>db = [], r_now = 0, keyspace_hits = 0, keyspace_misses = 0, fault = None\<rparr>"

definition empty_cache_world :: world where
  "empty_cache_world =
     \<lparr>redis_client = Some empty_redis, clock = stub_clock, ticks = 0, model_calls = []\<rparr>"

definition failing_cache_world :: "redis_error \<Rightarrow> world" where
  "failing_cache_world e =
     \<lparr>redis_client = Some (empty_redis\<lparr>fault := Some e\<rparr>), clock = stub_clock, ticks = 0,
      model_calls = []\<rparr>"

text \<open>Three requests A, B and C, and a process that has served A and C.\<close>

definition request_A :: prediction_request where
  "request_A = example_request"

definition request_B :: prediction_request where
  "request_B = example_request\<lparr>humidity := 30\<rparr>"

definition request_C :: prediction_request where
  "request_C = example_request\<lparr>humidity := 35\<rparr>"

definition warm_world :: world where
  "warm_world =
     snd (predict_single (stub_env (Fin 0.845)) request_C
       (snd (predict_single (stub_env (Fin 0.845)) request_A empty_cache_world)))"

section \<open>Risk categorisation\<close>

lemma get_risk_level_Fin:
  "get_risk_level (Fin s) =
     (if s < 0.3 then ''LOW'' else if s < 0.6 then ''MODERATE''
      else if s < 0.8 then ''HIGH'' else ''EXTREME'')"
  by (simp add: get_risk_level_def)

lemma create_risk_label_eq: "create_risk_label s = get_risk_level s"
  by (simp add: create_risk_label_def get_risk_level_def)

text \<open>
  C6. For every score in [0, 1] the serving path's \<open>_get_risk_level\<close> maps [0, 0.3) to LOW,
  [0.3, 0.6) to MODERATE, [0.6, 0.8) to HIGH and [0.8, 1] to EXTREME, the offline
  \<open>create_risk_label\<close> agrees with it, and the boundary scores 0.3, 0.6, 0.8 and 1.0 fall into
  MODERATE, HIGH, EXTREME and EXTREME.
\<close>

theorem categorize_thresholds:
  assumes "0 \<le> s" and "s \<le> 1"
  shows "get_risk_level (Fin s) =
           (if s < 0.3 then ''LOW'' else if s < 0.6 then ''MODERATE''
            else if s < 0.8 then ''HIGH'' else ''EXTREME'')
         \<and> create_risk_label (Fin s) = get_risk_level (Fin s)
         \<and> get_risk_level (Fin 0.3) = ''MODERATE'' \<and> get_risk_level (Fin 0.6) = ''HIGH''
         \<and> get_risk_level (Fin 0.8) = ''EXTREME'' \<and> get_risk_level (Fin 1.0) = ''EXTREME''"
  by (simp add: get_risk_level_Fin create_risk_label_eq)

theorem categorize_thresholds_witness:
  "(0::real) \<le> 0.2999 \<and> (0.2999::real) \<le> 1 \<and> get_risk_level (Fin 0.2999) = ''LOW''
   \<and> create_risk_label (Fin 0.2999) = ''LOW''"
  using categorize_thresholds [of "0.2999"] by simp

section \<open>Temporal features\<close>

text \<open>
  C8. The serving path's feature row takes month, hour and day of year from the reading of
  the wall clock at prediction time: the request has no timestamp, and the three features
  are the same for every request. The offline transform takes them from the timestamp
  recorded in the weather observation.
\<close>

theorem temporal_features:
  "fst (prepare_features rq w) =
     DataFrame [[(''temperature'', JNum (Fin (temperature rq))),
                 (''humidity'', JNum (Fin (humidity rq))),
                 (''wind_speed'', JNum (Fin (wind_speed rq))),
                 (''wind_direction'', opt_num (wind_direction rq)),
                 (''pressure'', opt_num (pressure rq)),
                 (''month'', JInt (int (month (clock w (ticks w))))),
                 (''hour'', JInt (int (hour (clock w (ticks w))))),
                 (''day_of_year'', JInt (int (tm_yday (clock w (ticks w)))))]]
   \<and> map_of (create_features wd) ''month'' = Some (JInt (int (month (wd_timestamp wd))))
   \<and> map_of (create_features wd) ''hour'' = Some (JInt (int (hour (wd_timestamp wd))))
   \<and> map_of (create_features wd) ''day_of_year'' = Some (JInt (int (tm_yday (wd_timestamp wd))))"
  by (simp add: prepare_features_def datetime_now_def create_features_def Let_def)

section \<open>The cache fails open\<close>

lemma cache_get_unavailable: "unavailable w \<Longrightarrow> cache_get E d w = (None, w)"
  by (auto simp: unavailable_def cache_get_def get_try_def redis_get_def split: option.splits)

lemma cache_set_unavailable: "unavailable w \<Longrightarrow> cache_set E d p ttl w = w"
  by (auto simp: unavailable_def cache_set_def set_try_def redis_setex_def Let_def
      split: option.splits)

lemma get_stats_unavailable: "unavailable w \<Longrightarrow> get_stats w = [(''connected'', JBool False)]"
  by (auto simp: unavailable_def get_stats_def stats_try_def redis_info_stats_def
      split: option.splits)

text \<open>\<open>SETEX\<close> refuses a configured TTL that is not positive; \<open>set\<close> absorbs that error too.\<close>

lemma cache_set_bad_ttl:
  assumes "redis_client w = Some r" and "CACHE_TTL E \<le> 0"
  shows "cache_set E d p None w = w"
  using assms
  by (simp add: cache_set_def set_try_def redis_setex_def Let_def split: option.splits)

lemma cache_get_keeps:
  "clock (snd (cache_get E d w)) = clock w"
  "ticks (snd (cache_get E d w)) = ticks w"
  "model_calls (snd (cache_get E d w)) = model_calls w"
  by (auto simp: cache_get_def split: option.splits prod.splits sum.splits)

lemma prepare_features_fst:
  "clock w' (ticks w') = clock w (ticks w) \<Longrightarrow>
   fst (prepare_features rq w') = fst (prepare_features rq w)"
  by (simp add: prepare_features_def datetime_now_def)

lemma predict_uncached_fst:
  "fst (predict_uncached E rq w) =
     (case model_predict E (fst (prepare_features rq w)) of
        Inl e \<Rightarrow> Inl e
      | Inr [] \<Rightarrow> Inl IndexError
      | Inr (raw # rest) \<Rightarrow>
          Inr (build_prediction E rq (np_clip raw 0 1) (clock w (Suc (ticks w)))))"
  by (simp add: predict_uncached_def prepare_features_def datetime_now_def call_model_def Let_def
      split: sum.splits list.splits prod.splits)

text \<open>
  After a miss \<open>predict_single\<close> is the fresh computation: the model scores the features
  taken at the first reading of the clock, and the result is stamped with the second.
\<close>

lemma predict_single_miss:
  assumes "cache_miss E rq w"
  shows "fst (predict_single E rq w) =
     (case model_predict E (fst (prepare_features rq w)) of
        Inl e \<Rightarrow> Inl e
      | Inr [] \<Rightarrow> Inl IndexError
      | Inr (raw # rest) \<Rightarrow>
          Inr (build_prediction E rq (np_clip raw 0 1) (clock w (Suc (ticks w)))))"
proof -
  obtain c w1 where g: "cache_get E (dict_of rq) w = (c, w1)"
    by (cases "cache_get E (dict_of rq) w")
  have k: "clock w1 = clock w" "ticks w1 = ticks w"
    using cache_get_keeps [of E "dict_of rq" w] g by simp_all
  have "predict_single E rq w = predict_uncached E rq w1"
    using assms g by (auto simp: predict_single_def cache_miss_def split: option.splits)
  moreover have "fst (prepare_features rq w1) = fst (prepare_features rq w)"
    by (rule prepare_features_fst) (simp add: k)
  ultimately show ?thesis
    by (simp add: predict_uncached_fst k split: sum.splits list.splits)
qed

lemma cache_miss_unavailable: "unavailable w \<Longrightarrow> cache_miss E rq w"
  by (simp add: cache_miss_def cache_get_unavailable)

lemma cache_miss_empty: "cache_miss E rq empty_cache_world"
  by (simp add: cache_miss_def cache_get_def get_try_def redis_get_def live_def
      empty_cache_world_def empty_redis_def Let_def)

lemma stub_features:
  "model_predict (stub_env raw) (fst (prepare_features rq w)) = Inr [raw]"
  by (simp add: stub_env_def stub_model_def prepare_features_def datetime_now_def)

lemma unavailable_no_cache: "unavailable no_cache_world"
  by (simp add: unavailable_def no_cache_world_def)

lemma no_cache_clock: "clock no_cache_world (Suc (ticks no_cache_world)) = stub_clock 1"
  by (simp add: no_cache_world_def)

lemma empty_cache_clock:
  "clock empty_cache_world (ticks empty_cache_world) = stub_clock 0"
  "clock empty_cache_world (Suc (ticks empty_cache_world)) = stub_clock 1"
  by (simp_all add: empty_cache_world_def)

text \<open>
  C7. When the backend is unavailable (no connection, or a server that raises any error on
  every command), \<open>get\<close> reports absent, \<open>set\<close> changes nothing, \<open>get_stats\<close> reports
  \<open>connected: False\<close>, and none of them raises; \<open>predict_single\<close> returns the freshly
  computed prediction, and fails only when the model call does.
\<close>

theorem cache_fail_open:
  assumes "unavailable w"
  shows "cache_get E d w = (None, w)
       \<and> cache_set E d p ttl w = w
       \<and> get_stats w = [(''connected'', JBool False)]
       \<and> fst (predict_single E rq w) =
           (case model_predict E (fst (prepare_features rq w)) of
              Inl e \<Rightarrow> Inl e
            | Inr [] \<Rightarrow> Inl IndexError
            | Inr (raw # rest) \<Rightarrow>
                Inr (build_prediction E rq (np_clip raw 0 1) (clock w (Suc (ticks w)))))"
  using assms
  by (simp add: cache_get_unavailable cache_set_unavailable get_stats_unavailable
      predict_single_miss cache_miss_unavailable)

theorem cache_fail_open_witness:
  "unavailable (failing_cache_world TimeoutError)
   \<and> cache_get (stub_env (Fin 1.5)) (dict_of example_request) (failing_cache_world TimeoutError)
       = (None, failing_cache_world TimeoutError)
   \<and> cache_set (stub_env (Fin 1.5)) (dict_of example_request) (JObj [(''risk_score'', JNum (Fin 1))])
       None (failing_cache_world TimeoutError) = failing_cache_world TimeoutError
   \<and> get_stats (failing_cache_world TimeoutError) = [(''connected'', JBool False)]
   \<and> fst (predict_single (stub_env (Fin 1.5)) example_request (failing_cache_world TimeoutError))
       = Inr (build_prediction (stub_env (Fin 1.5)) example_request (Fin 1) (stub_clock 1))"
proof -
  have u: "unavailable (failing_cache_world TimeoutError)"
    by (simp add: unavailable_def failing_cache_world_def)
  have c: "clock (failing_cache_world TimeoutError) (Suc (ticks (failing_cache_world TimeoutError)))
           = stub_clock 1"
    by (simp add: failing_cache_world_def)
  show ?thesis
    using cache_fail_open [OF u, of "stub_env (Fin 1.5)" "dict_of example_request"
        "JObj [(''risk_score'', JNum (Fin 1))]" None example_request] u
    by (simp add: stub_features c)
qed

section \<open>Clamping and rounding\<close>

lemma round_half_even_ge: "of_int a \<le> y \<Longrightarrow> a \<le> round_half_even y"
  unfolding round_half_even_def Let_def
  by (auto simp: le_floor_iff intro: order_trans [where y = "\<lfloor>y\<rfloor>"])

lemma round_half_even_le:
  assumes "y \<le> of_int b"
  shows "round_half_even y \<le> b"
proof (cases "y = of_int b")
  case True
  then show ?thesis by (simp add: round_half_even_def)
next
  case False
  with assms have "y < of_int b" by simp
  then have "\<lfloor>y\<rfloor> < b" by (simp add: floor_less_iff)
  then show ?thesis
    unfolding round_half_even_def Let_def by auto
qed

lemma round_real_unit:
  assumes "0 \<le> y" and "y \<le> 1"
  shows "0 \<le> round_real y 3 \<and> round_real y 3 \<le> 1"
proof -
  have "of_int 0 \<le> y * 10 ^ 3" using assms by simp
  then have a: "0 \<le> round_half_even (y * 10 ^ 3)" by (rule round_half_even_ge)
  have "y * 10 ^ 3 \<le> of_int 1000" using assms by simp
  then have b: "round_half_even (y * 10 ^ 3) \<le> 1000" by (rule round_half_even_le)
  show ?thesis using a b by (simp add: round_real_def)
qed

lemma round_real_0: "round_real 0 n = 0"
  by (simp add: round_real_def round_half_even_def)

lemma round_real_1: "round_real 1 3 = 1"
  by (simp add: round_real_def round_half_even_def)

lemma getitem_build:
  "getitem (build_prediction E rq s t) ''risk_score'' = Some (JNum (py_round s 3))"
  "getitem (build_prediction E rq s t) ''risk_level'' = Some (JStr (get_risk_level s))"
  "getitem (build_prediction E rq s t) ''contributing_factors'' = Some (JObj (calculate_factors rq))"
  "getitem (build_prediction E rq s t) ''latitude'' = Some (JNum (Fin (latitude rq)))"
  "getitem (build_prediction E rq s t) ''longitude'' = Some (JNum (Fin (longitude rq)))"
  "getitem (build_prediction E rq s t) ''from_cache'' = Some (JBool False)"
  by (simp_all add: build_prediction_def)

lemma risk_fields_build:
  "risk_fields (build_prediction E rq s t) =
     (Some (JNum (py_round s 3)), Some (JStr (get_risk_level s)), Some (JObj (calculate_factors rq)))"
  by (simp add: risk_fields_def getitem_build)

lemma score_in_unit_interval_build:
  "score_in_unit_interval (build_prediction E rq (Fin (min (max x 0) 1)) t)"
  using round_real_unit [of "min (max x 0) 1"]
  by (simp add: score_in_unit_interval_def getitem_build)

text \<open>
  C5, as amended. For every cache-miss prediction whose raw score is not NaN, the result
  carries the score clamped to [0, 1] and rounded, so its \<open>risk_score\<close> lies in [0, 1]; a
  raw score of 1.5 gives \<open>risk_score\<close> 1.0 and EXTREME, a raw score of -0.3 gives 0.0 and LOW.
\<close>

theorem finite_score_clamped:
  assumes "cache_miss E rq w"
    and "model_predict E (fst (prepare_features rq w)) = Inr (Fin x # rest)"
  shows "fst (predict_single E rq w) =
           Inr (build_prediction E rq (np_clip (Fin x) 0 1) (clock w (Suc (ticks w))))
       \<and> score_in_unit_interval (build_prediction E rq (np_clip (Fin x) 0 1) t)
       \<and> getitem (build_prediction E rq (np_clip (Fin 1.5) 0 1) t) ''risk_score'' = Some (JNum (Fin 1))
       \<and> getitem (build_prediction E rq (np_clip (Fin 1.5) 0 1) t) ''risk_level'' = Some (JStr ''EXTREME'')
       \<and> getitem (build_prediction E rq (np_clip (Fin (- 0.3)) 0 1) t) ''risk_score'' = Some (JNum (Fin 0))
       \<and> getitem (build_prediction E rq (np_clip (Fin (- 0.3)) 0 1) t) ''risk_level'' = Some (JStr ''LOW'')"
  using assms
  by (simp add: predict_single_miss score_in_unit_interval_build getitem_build round_real_0
      round_real_1 get_risk_level_Fin)

theorem finite_score_clamped_witness:
  "cache_miss (stub_env (Fin 1.5)) example_request no_cache_world
   \<and> model_predict (stub_env (Fin 1.5)) (fst (prepare_features example_request no_cache_world))
       = Inr [Fin 1.5]
   \<and> fst (predict_single (stub_env (Fin 1.5)) example_request no_cache_world)
       = Inr (build_prediction (stub_env (Fin 1.5)) example_request (Fin 1) (stub_clock 1))
   \<and> score_in_unit_interval
        (build_prediction (stub_env (Fin 1.5)) example_request (Fin 1) (stub_clock 1))"
proof -
  have m: "cache_miss (stub_env (Fin 1.5)) example_request no_cache_world"
    by (rule cache_miss_unavailable [OF unavailable_no_cache])
  have p: "model_predict (stub_env (Fin 1.5)) (fst (prepare_features example_request no_cache_world))
       = Inr [Fin 1.5]"
    by (rule stub_features)
  show ?thesis
    using finite_score_clamped [OF m p, of "stub_clock 1"] m p
    by (simp add: no_cache_clock)
qed

text \<open>
  C5 as stated fails on a NaN raw score: \<open>np.clip\<close> and \<open>round\<close> pass NaN on, every
  comparison of \<open>_get_risk_level\<close> is false, and the result carries \<open>risk_score\<close> NaN, which is
  not in [0, 1], with the level EXTREME.
\<close>

theorem nan_score_not_clamped:
  "map_sum id (\<lambda>p. (getitem p ''risk_score'', getitem p ''risk_level'', score_in_unit_interval p))
     (fst (predict_single (stub_env NaN) example_request no_cache_world))
   = Inr (Some (JNum NaN), Some (JStr ''EXTREME''), False)"
  by (simp add: predict_single_miss cache_miss_unavailable unavailable_no_cache stub_features
      getitem_build score_in_unit_interval_def get_risk_level_def)



section \<open>Location\<close>

text \<open>
  C10. Two requests that agree on every field but latitude and longitude, both missing the
  cache and evaluated at the same reading of the clock with the same model, give the model
  the same feature frame and get the same \<open>risk_score\<close>, \<open>risk_level\<close> and
  \<open>contributing_factors\<close> (or the same failure of the model).
\<close>

theorem location_noninterference:
  assumes "temperature rq' = temperature rq" and "humidity rq' = humidity rq"
    and "wind_speed rq' = wind_speed rq" and "wind_direction rq' = wind_direction rq"
    and "pressure rq' = pressure rq"
    and "clock w' (ticks w') = clock w (ticks w)"
    and "cache_miss E rq w" and "cache_miss E rq' w'"
  shows "fst (prepare_features rq' w') = fst (prepare_features rq w)
       \<and> calculate_factors rq' = calculate_factors rq
       \<and> map_sum id risk_fields (fst (predict_single E rq' w'))
           = map_sum id risk_fields (fst (predict_single E rq w))"
proof -
  have f: "fst (prepare_features rq' w') = fst (prepare_features rq w)"
    using assms by (simp add: prepare_features_def datetime_now_def)
  have c: "calculate_factors rq' = calculate_factors rq"
    using assms by (simp add: calculate_factors_def)
  show ?thesis
    using assms(7,8)
    by (simp add: f c predict_single_miss risk_fields_build split: sum.splits list.splits)
qed

lemma upt_3: "[0..<3] = [0, 1, 2]"
  by (simp add: upt_rec)

lemma zpad_3:
  "zpad 3 n = [''0123456789'' ! (n div 100 mod 10), ''0123456789'' ! (n div 10 mod 10),
               ''0123456789'' ! (n mod 10)]"
  by (simp add: zpad_def upt_3)

text \<open>The two places get the same scores, and different cache keys.\<close>

theorem location_noninterference_witness:
  "temperature elsewhere_request = temperature example_request
   \<and> humidity elsewhere_request = humidity example_request
   \<and> wind_speed elsewhere_request = wind_speed example_request
   \<and> wind_direction elsewhere_request = wind_direction example_request
   \<and> pressure elsewhere_request = pressure example_request
   \<and> latitude elsewhere_request \<noteq> latitude example_request
   \<and> cache_miss (stub_env (Fin 0.845)) example_request empty_cache_world
   \<and> cache_miss (stub_env (Fin 0.845)) elsewhere_request empty_cache_world
   \<and> map_sum id risk_fields
        (fst (predict_single (stub_env (Fin 0.845)) elsewhere_request empty_cache_world))
       = map_sum id risk_fields
           (fst (predict_single (stub_env (Fin 0.845)) example_request empty_cache_world))
   \<and> map_sum id risk_fields
        (fst (predict_single (stub_env (Fin 0.845)) example_request empty_cache_world))
       = Inr (Some (JNum (Fin 0.845)), Some (JStr ''EXTREME''),
              Some (JObj [(''temperature_factor'', JNum (Fin 0.625)),
                          (''humidity_factor'', JNum (Fin 0.5)),
                          (''wind_factor'', JInt 1)]))"
proof -
  have a: "temperature elsewhere_request = temperature example_request"
    "humidity elsewhere_request = humidity example_request"
    "wind_speed elsewhere_request = wind_speed example_request"
    "wind_direction elsewhere_request = wind_direction example_request"
    "pressure elsewhere_request = pressure example_request"
    by (simp_all add: elsewhere_request_def)
  have l: "latitude elsewhere_request \<noteq> latitude example_request"
    by (simp add: elsewhere_request_def example_request_def)
  have r: "map_sum id risk_fields
        (fst (predict_single (stub_env (Fin 0.845)) example_request empty_cache_world))
       = Inr (Some (JNum (Fin 0.845)), Some (JStr ''EXTREME''),
              Some (JObj [(''temperature_factor'', JNum (Fin 0.625)),
                          (''humidity_factor'', JNum (Fin 0.5)),
                          (''wind_factor'', JInt 1)]))"
    by (simp add: predict_single_miss cache_miss_empty stub_features risk_fields_build
        calculate_factors_def example_request_def py_max_def py_min_def round_real_def
        round_half_even_def get_risk_level_Fin)
  show ?thesis
    using location_noninterference [OF a refl cache_miss_empty cache_miss_empty,
        of "stub_env (Fin 0.845)"] a l r cache_miss_empty
    by simp
qed

section \<open>Cache round trip\<close>








lemmas eval_defs =
  predict_single_def predict_uncached_def predict_batch_def cache_get_def cache_set_def
  get_try_def set_try_def redis_get_def redis_setex_def live_def generate_key_def
  prepare_features_def datetime_now_def call_model_def build_prediction_def
  DataFrame_of_frames_def stub_env_def stub_model_def stub_digest_def stub_clock_def
  empty_cache_world_def empty_redis_def example_request_def
  dict_of_def opt_num_def zpad_3 Let_def calculate_factors_def py_max_def py_min_def
  round_real_def round_half_even_def get_risk_level_def


section \<open>Fingerprints\<close>













section \<open>Batch prediction\<close>

lemma scan_cache_model_calls:
  "model_calls (snd (scan_cache E i rqs ps us ixs w)) = model_calls w"
proof (induction rqs arbitrary: i ps us ixs w)
  case Nil
  then show ?case by simp
next
  case (Cons rq rqs)
  obtain c w1 where g: "cache_get E (dict_of rq) w = (c, w1)"
    by (cases "cache_get E (dict_of rq) w")
  have m: "model_calls w1 = model_calls w"
    using cache_get_keeps(3) [of E "dict_of rq" w] g by simp
  show ?case
    using g m Cons.IH by (simp split: option.splits sum.splits)
qed

lemma scan_cache_length:
  "scan_cache E i rqs ps us ixs w = (Inr (ps', us', ixs'), w') \<Longrightarrow>
   length ps' = length ps + length rqs"
proof (induction rqs arbitrary: i ps us ixs w)
  case Nil
  then show ?case by simp
next
  case (Cons rq rqs)
  obtain c w1 where g: "cache_get E (dict_of rq) w = (c, w1)"
    by (cases "cache_get E (dict_of rq) w")
  show ?case
    using Cons.prems g Cons.IH by (auto split: option.splits sum.splits if_splits)
qed

lemma prepare_all_model_calls: "model_calls (snd (prepare_all rqs w)) = model_calls w"
proof (induction rqs arbitrary: w)
  case Nil
  then show ?case by simp
next
  case (Cons rq rqs)
  obtain f w1 where p: "prepare_features rq w = (f, w1)" by (cases "prepare_features rq w")
  then have "model_calls w1 = model_calls w"
    by (auto simp: prepare_features_def datetime_now_def)
  then show ?case
    using p Cons.IH [of w1] by (auto split: prod.splits)
qed

lemma prepare_all_nonempty: "rqs \<noteq> [] \<Longrightarrow> fst (prepare_all rqs w) \<noteq> []"
  by (cases rqs) (auto split: prod.splits)

text \<open>No call of \<open>predict_batch\<close> reaches the model.\<close>

lemma predict_batch_never_calls_model:
  "model_calls (snd (predict_batch E rqs w)) = model_calls w"
proof -
  obtain res w1 where s: "scan_cache E 0 rqs [] [] [] w = (res, w1)"
    by (cases "scan_cache E 0 rqs [] [] [] w")
  have m: "model_calls w1 = model_calls w"
    using scan_cache_model_calls [of E 0 rqs "[]" "[]" "[]" w] s by simp
  show ?thesis
  proof (cases res)
    case (Inl e)
    then show ?thesis using s m by (simp add: predict_batch_def)
  next
    case (Inr t)
    obtain ps us ixs where t: "t = (ps, us, ixs)" by (cases t)
    show ?thesis
    proof (cases "us = []")
      case True
      then show ?thesis using s m Inr t by (simp add: predict_batch_def)
    next
      case False
      obtain fs w2 where p: "prepare_all us w1 = (fs, w2)" by (cases "prepare_all us w1")
      have "fs \<noteq> []" using prepare_all_nonempty [OF False, of w1] p by simp
      moreover have "model_calls w2 = model_calls w1"
        using prepare_all_model_calls [of us w1] p by simp
      ultimately show ?thesis
        using s m Inr t False p by (simp add: predict_batch_def DataFrame_of_frames_def)
    qed
  qed
qed

text \<open>When \<open>predict_batch\<close> returns, every request was a cache hit.\<close>

lemma predict_batch_returns:
  assumes "fst (predict_batch E rqs w) = Inr out"
  shows "length out = length rqs"
proof -
  obtain res w1 where s: "scan_cache E 0 rqs [] [] [] w = (res, w1)"
    by (cases "scan_cache E 0 rqs [] [] [] w")
  show ?thesis
  proof (cases res)
    case (Inl e)
    then show ?thesis using s assms by (simp add: predict_batch_def)
  next
    case (Inr t)
    obtain ps us ixs where t: "t = (ps, us, ixs)" by (cases t)
    have l: "length ps = length rqs"
      using scan_cache_length [of E 0 rqs "[]" "[]" "[]" w ps us ixs w1] s Inr t by simp
    show ?thesis
    proof (cases "us = []")
      case True
      then show ?thesis using s Inr t assms l by (simp add: predict_batch_def)
    next
      case False
      obtain fs w2 where p: "prepare_all us w1 = (fs, w2)" by (cases "prepare_all us w1")
      have "fs \<noteq> []" using prepare_all_nonempty [OF False, of w1] p by simp
      then show ?thesis
        using s Inr t False p assms by (simp add: predict_batch_def DataFrame_of_frames_def)
    qed
  qed
qed

lemma predict_batch_single_miss:
  assumes "cache_miss E rq w"
  shows "fst (predict_batch E [rq] w) = Inl ValueError"
proof -
  obtain c w1 where g: "cache_get E (dict_of rq) w = (c, w1)"
    by (cases "cache_get E (dict_of rq) w")
  have "\<not> (case c of None \<Rightarrow> False | Some c \<Rightarrow> truthy c)"
    using assms g by (simp add: cache_miss_def split: option.splits)
  then show ?thesis
    using g by (simp add: predict_batch_def DataFrame_of_frames_def split: prod.splits)
qed

text \<open>
  A batch of cache hits does return: the cached results, in the order of the requests, each
  with \<open>from_cache\<close> set.
\<close>

lemma batch_all_hits_in_order:
  "map_sum id (map (\<lambda>p. (getitem p ''from_cache'', getitem p ''contributing_factors'')))
     (fst (predict_batch (stub_env (Fin 0.845)) [request_C, request_A] warm_world))
   = Inr [(Some (JBool True),
           Some (JObj [(''temperature_factor'', JNum (Fin 0.625)),
                       (''humidity_factor'', JNum (Fin 0.3)),
                       (''wind_factor'', JInt 1)])),
          (Some (JBool True),
           Some (JObj [(''temperature_factor'', JNum (Fin 0.625)),
                       (''humidity_factor'', JNum (Fin 0.5)),
                       (''wind_factor'', JInt 1)]))]"
  by (simp add: eval_defs warm_world_def request_A_def request_C_def)

text \<open>
  C1. With an empty cache \<open>predict_single\<close> returns a prediction for the example request,
  but \<open>predict_batch\<close> of the list holding that one request raises \<open>ValueError\<close>: it wraps
  the one-row frame of \<open>_prepare_features\<close> in a list and builds a frame of that.
\<close>

theorem batch_single_disparity:
  "fst (predict_batch (stub_env (Fin 0.845)) [example_request] empty_cache_world) = Inl ValueError
   \<and> map_sum id risk_fields
       (fst (predict_single (stub_env (Fin 0.845)) example_request empty_cache_world))
     = Inr (Some (JNum (Fin 0.845)), Some (JStr ''EXTREME''),
            Some (JObj [(''temperature_factor'', JNum (Fin 0.625)),
                        (''humidity_factor'', JNum (Fin 0.5)),
                        (''wind_factor'', JInt 1)]))"
  by (simp add: eval_defs risk_fields_def)

text \<open>
  C2. In a process that has cached A and C and not B, \<open>predict_batch [A, B, C]\<close> raises
  \<open>ValueError\<close> instead of returning three results, and the model has not been called.
\<close>

theorem batch_with_miss_raises:
  "fst (predict_batch (stub_env (Fin 0.845)) [request_A, request_B, request_C] warm_world)
     = Inl ValueError
   \<and> model_calls (snd (predict_batch (stub_env (Fin 0.845)) [request_A, request_B, request_C]
        warm_world)) = model_calls warm_world
   \<and> map (map_option (\<lambda>p. getitem p ''from_cache''))
        [fst (cache_get (stub_env (Fin 0.845)) (dict_of request_A) warm_world),
         fst (cache_get (stub_env (Fin 0.845)) (dict_of request_B) warm_world),
         fst (cache_get (stub_env (Fin 0.845)) (dict_of request_C) warm_world)]
     = [Some (Some (JBool False)), None, Some (Some (JBool False))]"
  by (simp add: eval_defs warm_world_def request_A_def request_B_def request_C_def)

end
